theory Spec2Isabelle
  imports Complex_Main "HOL-Library.Word" "HOL-Library.Sublist"
begin

section \<open>JavaScript strings\<close>

text \<open>
  A JavaScript string is a sequence of 16-bit code units: \<open>length\<close>, \<open>charCodeAt\<close>,
  \<open>slice\<close>, \<open>includes\<close> and \<open>split\<close> all count code units. String literals of the
  source that are plain ASCII are written through \<open>lit\<close>.
\<close>

type_synonym jsstring = "16 word list"

definition lit :: "string \<Rightarrow> jsstring" where
  "lit s = map (\<lambda>c. of_char c) s"

text \<open>
  \<open>String.prototype.includes\<close>, named \<open>includes_str\<close> as the plain name is reserved:
  the argument occurs as a contiguous block.
\<close>

fun includes_str :: "jsstring \<Rightarrow> jsstring \<Rightarrow> bool" where
  "includes_str [] a = (a = [])"
| "includes_str (c # cs) a = (prefix a (c # cs) \<or> includes_str cs a)"

text \<open>
  \<open>s.split('=>')\<close>: the pieces of \<open>s\<close> between the occurrences of the two code units
  \<open>=\<close> (0x3D) and \<open>>\<close> (0x3E), scanned from the left. The result always has at
  least one piece.
\<close>

fun split_arrow :: "jsstring \<Rightarrow> jsstring list" where
  "split_arrow [] = [[]]"
| "split_arrow [c] = [[c]]"
| "split_arrow (c # d # cs) =
     (if c = 0x3D \<and> d = 0x3E then [] # split_arrow cs
      else (case split_arrow (d # cs) of
              w # ws \<Rightarrow> (c # w) # ws
            | [] \<Rightarrow> [[c]]))"

text \<open>Reading an array at an index: \<open>undefined\<close> (here \<open>None\<close>) out of range.\<close>

definition at_index :: "'a list \<Rightarrow> nat \<Rightarrow> 'a option" where
  "at_index xs i = (if i < length xs then Some (xs ! i) else None)"

section \<open>CognitiveLayer\<close>

text \<open>
  \<open>deductiveReason\<close> returns \<open>rule.split('=>')[1]\<close> for the first rule whose
  \<open>rule.split('=>')[0]\<close> the premise includes; that second piece is \<open>undefined\<close>
  (\<open>None\<close>) for a rule without \<open>=>\<close>. With no such rule it returns the premise.
\<close>

definition antecedent :: "jsstring \<Rightarrow> jsstring" where
  "antecedent rule = (case split_arrow rule of a # _ \<Rightarrow> a | [] \<Rightarrow> [])"

fun deductiveReason :: "jsstring \<Rightarrow> jsstring list \<Rightarrow> jsstring option" where
  "deductiveReason premise [] = Some premise"
| "deductiveReason premise (rule # inputRules) =
     (if includes_str premise (antecedent rule) then at_index (split_arrow rule) 1
      else deductiveReason premise inputRules)"

definition hypotheses :: "jsstring list" where
  "hypotheses = [lit ''pattern_match'', lit ''rule_application'', lit ''knowledge_retrieval'']"

definition scoreHypothesis :: "jsstring \<Rightarrow> jsstring \<Rightarrow> nat" where
  "scoreHypothesis obs hyp = length obs * length hyp"

text \<open>The loop of \<open>abductiveReason\<close> over the pair (bestHypothesis, bestScore).\<close>

definition abductiveStep :: "jsstring \<Rightarrow> jsstring \<Rightarrow> jsstring \<times> nat \<Rightarrow> jsstring \<times> nat" where
  "abductiveStep observation hyp best =
     (let score = scoreHypothesis observation hyp
      in if score > snd best then (hyp, score) else best)"

definition abductiveReason :: "jsstring \<Rightarrow> jsstring" where
  "abductiveReason observation =
     fst (fold (abductiveStep observation) hypotheses (lit ''pattern_match'', 0))"

section \<open>JavaScript numbers\<close>

text \<open>
  Numbers are modelled as real numbers: the rounding of IEEE arithmetic, and of the
  stores into a \<open>Float32Array\<close>, is abstracted away. What is kept is the one
  non-finite value the code can produce: \<open>NaN\<close>, from \<open>0 / 0\<close> and from arithmetic
  on \<open>undefined\<close>. Every comparison with \<open>NaN\<close> is false.
\<close>

datatype jsnum = Num real | NaN

fun jsadd :: "jsnum \<Rightarrow> jsnum \<Rightarrow> jsnum" where
  "jsadd (Num x) (Num y) = Num (x + y)"
| "jsadd _ _ = NaN"

fun jsmul :: "jsnum \<Rightarrow> real \<Rightarrow> jsnum" where
  "jsmul (Num x) y = Num (x * y)"
| "jsmul NaN _ = NaN"

text \<open>\<open>a / n\<close> for a finite \<open>a\<close> that is 0 whenever the count \<open>n\<close> is 0.\<close>

definition jsdiv :: "real \<Rightarrow> nat \<Rightarrow> jsnum" where
  "jsdiv a n = (if n = 0 then NaN else Num (a / real n))"

text \<open>\<open>Math.round\<close> rounds to the nearest integer, a half towards plus infinity.\<close>

fun mathRound :: "jsnum \<Rightarrow> int option" where
  "mathRound (Num x) = Some \<lfloor>x + 1 / 2\<rfloor>"
| "mathRound NaN = None"

section \<open>TernaryVPU\<close>

record TernaryVPU =
  numVPUs :: nat
  vpuStates :: "8 word list"
  activationThreshold :: real

definition TernaryVPU_new :: "nat \<Rightarrow> TernaryVPU" where
  "TernaryVPU_new vpuCount =
     \<lparr>numVPUs = vpuCount, vpuStates = replicate vpuCount 0, activationThreshold = 33 / 100\<rparr>"

definition ternary :: "real \<Rightarrow> real \<Rightarrow> 8 word" where
  "ternary threshold x = (if x > threshold then 1 else if x < - threshold then - 1 else 0)"

definition quantizeToTernary :: "TernaryVPU \<Rightarrow> real list \<Rightarrow> TernaryVPU" where
  "quantizeToTernary vpu input =
     fold (\<lambda>i v. v\<lparr>vpuStates := (vpuStates v)[i := ternary (activationThreshold v) (input ! i)]\<rparr>)
          [0..<min (length input) (numVPUs vpu)] vpu"

definition computeOutput :: "TernaryVPU \<Rightarrow> jsnum" where
  "computeOutput vpu =
     jsdiv (real_of_int (fold (\<lambda>i sum. sum + sint (vpuStates vpu ! i)) [0..<numVPUs vpu] 0))
           (numVPUs vpu)"

definition TernaryVPU_process :: "TernaryVPU \<Rightarrow> real list \<Rightarrow> jsnum \<times> TernaryVPU" where
  "TernaryVPU_process vpu input = (let vpu' = quantizeToTernary vpu input in (computeOutput vpu', vpu'))"

text \<open>
  The constructor makes \<open>vpuStates\<close> an array of \<open>numVPUs\<close> entries and sets the
  threshold to 0.33; no method changes the length or the threshold.
\<close>

definition vpu_wf :: "TernaryVPU \<Rightarrow> bool" where
  "vpu_wf vpu \<longleftrightarrow>
     length (vpuStates vpu) = numVPUs vpu \<and> activationThreshold vpu = 33 / 100"

section \<open>ResonanceNetwork\<close>

record ResonanceNetwork =
  resonanceStates :: "real list"
  resonanceThreshold :: real
  syncHistory :: "jsnum list list"

definition ResonanceNetwork_new :: "nat \<Rightarrow> ResonanceNetwork" where
  "ResonanceNetwork_new n =
     \<lparr>resonanceStates = replicate n 0, resonanceThreshold = 7 / 10, syncHistory = []\<rparr>"

text \<open>The score of one pattern; an empty pattern gives \<open>0 / 0\<close>.\<close>

definition resonanceScore :: "real list \<Rightarrow> real list \<Rightarrow> jsnum" where
  "resonanceScore states pattern =
     jsdiv (fold (\<lambda>j score. score + 1 / (1 + \<bar>pattern ! j - states ! j\<bar>))
                 [0..<min (length pattern) (length states)] 0)
           (length pattern)"

fun indexOf :: "real list \<Rightarrow> real \<Rightarrow> nat option" where
  "indexOf [] m = None"
| "indexOf (x # xs) m = (if x = m then Some 0 else map_option Suc (indexOf xs m))"

fun finite_values :: "jsnum list \<Rightarrow> real list option" where
  "finite_values [] = Some []"
| "finite_values (NaN # xs) = None"
| "finite_values (Num x # xs) = map_option ((#) x) (finite_values xs)"

text \<open>
  \<open>scores.indexOf(Math.max(...scores))\<close>, with \<open>None\<close> for the result -1:
  \<open>Math.max()\<close> of no argument is minus infinity, which no score equals, and with a
  \<open>NaN\<close> among the scores the maximum is \<open>NaN\<close>, which equals nothing.
\<close>

definition bestIndexOf :: "jsnum list \<Rightarrow> nat option" where
  "bestIndexOf scores =
     (case finite_values scores of
        None \<Rightarrow> None
      | Some [] \<Rightarrow> None
      | Some (x # xs) \<Rightarrow> indexOf (x # xs) (fold max xs x))"

definition synchronizeVPUs :: "ResonanceNetwork \<Rightarrow> real list list \<Rightarrow> jsnum list \<times> ResonanceNetwork" where
  "synchronizeVPUs net patterns =
     (let resonanceScores = map (resonanceScore (resonanceStates net)) patterns;
          states' = (case bestIndexOf resonanceScores of
                       None \<Rightarrow> resonanceStates net
                     | Some bestIndex \<Rightarrow>
                         fold (\<lambda>i st. st[i := (patterns ! bestIndex) ! i])
                              [0..<min (length (patterns ! bestIndex)) (length (resonanceStates net))]
                              (resonanceStates net))
      in (resonanceScores,
          net\<lparr>resonanceStates := states', syncHistory := syncHistory net @ [resonanceScores]\<rparr>))"

section \<open>SparseTensorRing\<close>

text \<open>The map \<open>tensorCores\<close> of the class is never read or written and is left out.\<close>

record SparseTensorRing =
  ringDimension :: nat
  rankBound :: nat
  sparsityMask :: "8 word list"

definition SparseTensorRing_new :: "nat \<Rightarrow> nat \<Rightarrow> SparseTensorRing" where
  "SparseTensorRing_new ringDim rank =
     \<lparr>ringDimension = ringDim, rankBound = rank, sparsityMask = replicate ringDim 0\<rparr>"

definition encodeToTensor :: "SparseTensorRing \<Rightarrow> jsstring \<Rightarrow> real list" where
  "encodeToTensor ring input =
     fold (\<lambda>i tensor. tensor[i := real (unat (input ! i)) / 255])
          [0..<min (length input) (ringDimension ring)]
          (replicate (ringDimension ring) 0)"

text \<open>
  With a tensor of length 0 the source divides 0 by 0; the \<open>NaN\<close> it stores then fails
  the comparison in \<open>extractSparse\<close>, exactly as the 0 does that the division gives here.
\<close>

definition tensorDecomposition :: "SparseTensorRing \<Rightarrow> real list \<Rightarrow> real list" where
  "tensorDecomposition ring tensor =
     map (\<lambda>i. fold (\<lambda>j sum. sum + tensor ! j * cos (real i * real j * pi / real (ringDimension ring)))
                    [0..<length tensor] 0
               / real (length tensor))
         [0..<rankBound ring]"

definition extractSparse :: "SparseTensorRing \<Rightarrow> real list \<Rightarrow> real list \<times> SparseTensorRing" where
  "extractSparse ring decomposed =
     fold (\<lambda>i (sparse, r).
             if \<bar>decomposed ! i\<bar> > 1 / 100
             then (sparse @ [real i, decomposed ! i], r\<lparr>sparsityMask := (sparsityMask r)[i := 1]\<rparr>)
             else (sparse, r))
          [0..<length decomposed] ([], ring)"

definition compress :: "SparseTensorRing \<Rightarrow> jsstring \<Rightarrow> real list \<times> SparseTensorRing" where
  "compress ring input =
     (let encoded = encodeToTensor ring input;
          decomposed = tensorDecomposition ring encoded
      in extractSparse ring decomposed)"

text \<open>
  The pairs \<open>(sparse[i], sparse[i + 1])\<close> for \<open>i = 0, 2, 4, ...\<close>; the last value of a
  list of odd length is \<open>undefined\<close>, which the arithmetic turns into \<open>NaN\<close>.
\<close>

fun sparsePairs :: "real list \<Rightarrow> (real \<times> jsnum) list" where
  "sparsePairs [] = []"
| "sparsePairs [index] = [(index, NaN)]"
| "sparsePairs (index # value # rest) = (index, Num value) # sparsePairs rest"

definition reconstructTensor :: "SparseTensorRing \<Rightarrow> real list \<Rightarrow> jsnum list" where
  "reconstructTensor ring sparse =
     fold (\<lambda>(index, value) reconstructed.
             map (\<lambda>j. jsadd (reconstructed ! j)
                        (jsmul value (cos (index * real j * pi / real (ringDimension ring)))))
                 [0..<ringDimension ring])
          (sparsePairs sparse)
          (replicate (ringDimension ring) (Num 0))"

definition fromCharCode :: "int \<Rightarrow> 16 word" where
  "fromCharCode charCode = word_of_int charCode"

fun decodeFromTensor :: "jsnum list \<Rightarrow> jsstring" where
  "decodeFromTensor [] = []"
| "decodeFromTensor (t # tensor) =
     (case mathRound (jsmul t 255) of
        None \<Rightarrow> decodeFromTensor tensor
      | Some charCode \<Rightarrow>
          if charCode > 0 \<and> charCode < 256
          then fromCharCode charCode # decodeFromTensor tensor
          else decodeFromTensor tensor)"

definition decompress :: "SparseTensorRing \<Rightarrow> real list \<Rightarrow> jsstring" where
  "decompress ring sparse = decodeFromTensor (reconstructTensor ring sparse)"

section \<open>HybridCore\<close>

text \<open>
  The orchestrator owns one instance of each stage; the CognitiveLayer has no state that
  any method changes. \<open>Number.prototype.toString\<close> is a parameter of the model, and
  so is the elapsed time that \<open>performance.now\<close> measures.
\<close>

record HybridCore =
  tensorRing :: SparseTensorRing
  ternaryVPU :: TernaryVPU
  resonance :: ResonanceNetwork
  processingHistory :: "real list"

definition HybridCore_new :: HybridCore where
  "HybridCore_new =
     \<lparr>tensorRing = SparseTensorRing_new 32 4, ternaryVPU = TernaryVPU_new 52,
      resonance = ResonanceNetwork_new 52, processingHistory = []\<rparr>"

text \<open>
  \<open>synchronizeVPUs([[NaN]])\<close>: with at least one unit the only score is \<open>NaN\<close> and no
  index is the best; with no unit the score is \<open>0 / 1\<close>, index 0 is the best and the
  update loop runs over no position. The states stay as they are in both cases.
\<close>

definition synchronizeNaN :: "ResonanceNetwork \<Rightarrow> jsnum list \<times> ResonanceNetwork" where
  "synchronizeNaN net =
     (let resonanceScores = [if resonanceStates net = [] then Num 0 else NaN]
      in (resonanceScores, net\<lparr>syncHistory := syncHistory net @ [resonanceScores]\<rparr>))"

definition HybridCore_process ::
  "(jsnum \<Rightarrow> jsstring) \<Rightarrow> HybridCore \<Rightarrow> jsstring \<Rightarrow> real \<Rightarrow> jsstring option \<times> HybridCore" where
  "HybridCore_process toString core input processingTime =
     (let (compressed, ring') = compress (tensorRing core) input;
          (vpuOutput, vpu') = TernaryVPU_process (ternaryVPU core) compressed;
          reasoning = deductiveReason (toString vpuOutput) [lit ''input=>processed''];
          (synced, net') = (case vpuOutput of
                              Num v \<Rightarrow> synchronizeVPUs (resonance core) [[v]]
                            | NaN \<Rightarrow> synchronizeNaN (resonance core))
      in (reasoning,
          \<lparr>tensorRing = ring', ternaryVPU = vpu', resonance = net',
           processingHistory = processingHistory core @ [processingTime]\<rparr>))"

text \<open>
  What the constructor establishes for the quantizer of an orchestrator and every call
  of \<open>process\<close> keeps: 52 units, each in one of the states 0, 1 and -1.
\<close>

definition core_inv :: "HybridCore \<Rightarrow> bool" where
  "core_inv core \<longleftrightarrow>
     vpu_wf (ternaryVPU core) \<and> numVPUs (ternaryVPU core) = 52 \<and>
     list_all (\<lambda>s. s = 0 \<or> s = 1 \<or> s = - 1) (vpuStates (ternaryVPU core))"

section \<open>NeuralModeController\<close>

datatype NeuralMode = PURE_SLLM | CONSCIOUS | TEMPORAL | HYBRID | SPIKING

fun modeName :: "NeuralMode \<Rightarrow> jsstring" where
  "modeName PURE_SLLM = lit ''pure_sllm''"
| "modeName CONSCIOUS = lit ''conscious''"
| "modeName TEMPORAL = lit ''temporal''"
| "modeName HYBRID = lit ''hybrid''"
| "modeName SPIKING = lit ''spiking''"

text \<open>
  The table \<open>modeConfigs\<close> is constant and \<open>process\<close> reads it without using what it
  reads, so the state of the controller is the mode and the consciousness level.
\<close>

record NeuralModeController =
  currentMode :: NeuralMode
  consciousnessLevel :: real

definition NeuralModeController_new :: NeuralModeController where
  "NeuralModeController_new = \<lparr>currentMode = PURE_SLLM, consciousnessLevel = 0\<rparr>"

record Qualia =
  content :: "real list"
  qualia :: "real \<times> real"

text \<open>
  The object that \<open>process\<close> returns; a field that the object does not have is \<open>None\<close>.
  Its field \<open>output\<close> is \<open>outputStr\<close> here and its field \<open>consciousnessLevel\<close> is
  \<open>resultLevel\<close>: the first name is reserved and the second is the controller's.
\<close>

record ProcessResult =
  outputStr :: jsstring
  mode :: "NeuralMode option"
  resultLevel :: "real option"
  qualiaState :: "Qualia option"
  introspection :: "jsstring option"
  memoryState :: "jsstring list option"
  anticipation :: "jsstring option"
  fullSynthesis :: "bool option"

definition emptyResult :: "jsstring \<Rightarrow> ProcessResult" where
  "emptyResult out =
     \<lparr>outputStr = out, mode = None, resultLevel = None, qualiaState = None, introspection = None,
      memoryState = None, anticipation = None, fullSynthesis = None\<rparr>"

definition setMode :: "NeuralModeController \<Rightarrow> NeuralMode \<Rightarrow> NeuralModeController" where
  "setMode ctl m = ctl\<lparr>currentMode := m\<rparr>"

definition processPureSLLM :: "jsstring \<Rightarrow> jsstring" where
  "processPureSLLM input = input"

definition applyQualiaEncoding :: "jsstring \<Rightarrow> Qualia" where
  "applyQualiaEncoding input =
     \<lparr>content = map (\<lambda>c. real (unat c) / 255) input, qualia = (0, 0)\<rparr>"

text \<open>\<open>Array.prototype.join\<close> on an array of strings.\<close>

fun join :: "jsstring \<Rightarrow> jsstring list \<Rightarrow> jsstring" where
  "join sep [] = []"
| "join sep [x] = x"
| "join sep (x # y # ys) = x @ sep @ join sep (y # ys)"

text \<open>
  The template literal turns the array \<open>encoded.content\<close> into the strings of its
  numbers joined by commas, and the gate, always 0.5, into \<open>0.5\<close>.
\<close>

definition applyMetaCognitiveAttention :: "(jsnum \<Rightarrow> jsstring) \<Rightarrow> Qualia \<Rightarrow> jsstring" where
  "applyMetaCognitiveAttention toString encoded =
     join (lit '','') (map (\<lambda>x. toString (Num x)) (content encoded))
     @ lit '' (introspection: 0.5)''"

definition updateConsciousnessLevel :: "NeuralModeController \<Rightarrow> NeuralModeController" where
  "updateConsciousnessLevel ctl =
     ctl\<lparr>consciousnessLevel := min 1 (consciousnessLevel ctl + 1 / 100)\<rparr>"

definition generateIntrospection :: "(real \<Rightarrow> jsstring) \<Rightarrow> NeuralModeController \<Rightarrow> jsstring" where
  "generateIntrospection toFixed3 ctl =
     lit ''I am processing in '' @ modeName (currentMode ctl)
     @ lit '' mode with consciousness level '' @ toFixed3 (consciousnessLevel ctl)"

definition processConscious ::
  "(jsnum \<Rightarrow> jsstring) \<Rightarrow> (real \<Rightarrow> jsstring) \<Rightarrow> NeuralModeController \<Rightarrow> jsstring
     \<Rightarrow> ProcessResult \<times> NeuralModeController" where
  "processConscious toString toFixed3 ctl input =
     (let qualiaEncoded = applyQualiaEncoding input;
          attentionOutput = applyMetaCognitiveAttention toString qualiaEncoded;
          ctl' = updateConsciousnessLevel ctl
      in ((emptyResult attentionOutput)
            \<lparr>qualiaState := Some qualiaEncoded,
             resultLevel := Some (consciousnessLevel ctl'),
             introspection := Some (generateIntrospection toFixed3 ctl')\<rparr>,
          ctl'))"

definition recallMemory :: "jsstring list \<Rightarrow> jsstring" where
  "recallMemory memory = join (lit '' '') memory"

text \<open>The arrow of the template is the single code unit U+2192.\<close>

definition consolidateMemory :: "jsstring \<Rightarrow> jsstring \<Rightarrow> jsstring" where
  "consolidateMemory current recalled = recalled @ [0x20, 0x2192, 0x20] @ current"

definition applyTemporalProcessing :: "jsstring \<Rightarrow> jsstring list \<Rightarrow> jsstring" where
  "applyTemporalProcessing input memory = consolidateMemory input (recallMemory memory)"

text \<open>\<open>output.slice(-10)\<close>: the last 10 code units, all of them if there are fewer.\<close>

definition generateAnticipation :: "jsstring \<Rightarrow> jsstring" where
  "generateAnticipation out = lit ''anticipated: '' @ drop (length out - 10) out"

text \<open>
  The context is modelled by its field \<open>memoryState\<close>: \<open>None\<close> when there is no
  context or no such field, for which the source takes the empty array.
\<close>

definition processTemporal :: "jsstring \<Rightarrow> jsstring list option \<Rightarrow> ProcessResult" where
  "processTemporal input context =
     (let memory = (case context of None \<Rightarrow> [] | Some m \<Rightarrow> m);
          out = applyTemporalProcessing input memory
      in (emptyResult out)
           \<lparr>memoryState := Some (memory @ [out]),
            anticipation := Some (generateAnticipation out)\<rparr>)"

definition processHybrid ::
  "(jsnum \<Rightarrow> jsstring) \<Rightarrow> (real \<Rightarrow> jsstring) \<Rightarrow> NeuralModeController \<Rightarrow> jsstring
     \<Rightarrow> jsstring list option \<Rightarrow> ProcessResult \<times> NeuralModeController" where
  "processHybrid toString toFixed3 ctl input context =
     (let (conscious, ctl') = processConscious toString toFixed3 ctl input;
          temporal = processTemporal (outputStr conscious) context
      in ((emptyResult (outputStr temporal))
            \<lparr>qualiaState := qualiaState conscious,
             resultLevel := Some (consciousnessLevel ctl'),
             introspection := introspection conscious,
             memoryState := memoryState temporal,
             anticipation := anticipation temporal,
             fullSynthesis := Some True\<rparr>,
          ctl'))"

definition convertToSpikes :: "jsstring \<Rightarrow> int list" where
  "convertToSpikes input = map (\<lambda>c. if unat c > 127 then 1 else - 1) input"

definition processSpikes :: "int list \<Rightarrow> int list" where
  "processSpikes spikes = map (\<lambda>s. if s = 1 then 1 else if s = - 1 then - 1 else 0) spikes"

definition spikesToOutput :: "int list \<Rightarrow> jsstring" where
  "spikesToOutput spikes =
     concat (map (\<lambda>s. if s = 1 then lit ''1'' else if s = - 1 then lit ''0'' else lit ''x'') spikes)"

definition processSpiking :: "jsstring \<Rightarrow> jsstring" where
  "processSpiking input = spikesToOutput (processSpikes (convertToSpikes input))"

definition NeuralModeController_process ::
  "(jsnum \<Rightarrow> jsstring) \<Rightarrow> (real \<Rightarrow> jsstring) \<Rightarrow> NeuralModeController \<Rightarrow> jsstring
     \<Rightarrow> jsstring list option \<Rightarrow> ProcessResult \<times> NeuralModeController" where
  "NeuralModeController_process toString toFixed3 ctl input context =
     (case currentMode ctl of
        PURE_SLLM \<Rightarrow>
          ((emptyResult (processPureSLLM input))
             \<lparr>mode := Some (currentMode ctl), resultLevel := Some (consciousnessLevel ctl)\<rparr>, ctl)
      | CONSCIOUS \<Rightarrow> processConscious toString toFixed3 ctl input
      | TEMPORAL \<Rightarrow> (processTemporal input context, ctl)
      | HYBRID \<Rightarrow> processHybrid toString toFixed3 ctl input context
      | SPIKING \<Rightarrow>
          ((emptyResult (processSpiking input))
             \<lparr>mode := Some (currentMode ctl), resultLevel := Some (consciousnessLevel ctl)\<rparr>, ctl))"

subsection \<open>Formatters for the examples\<close>

text \<open>
  The theorems below hold for every \<open>toString\<close> and \<open>toFixed(3)\<close>. The examples
  need concrete ones: these two print the numbers that the examples format the way
  JavaScript prints them.
\<close>

definition exToString :: "jsnum \<Rightarrow> jsstring" where
  "exToString x =
     (if x = Num 0 then lit ''0''
      else if x = Num (120 / 255) then lit ''0.47058823529411764''
      else if x = Num (3 / 52) then lit ''0.057692307692307696''
      else lit ''NaN'')"

definition exToFixed3 :: "real \<Rightarrow> jsstring" where
  "exToFixed3 x = (if x = 1 / 100 then lit ''0.010'' else lit ''1.000'')"

section \<open>Properties of the CognitiveLayer\<close>

lemma includes_str_iff: "includes_str p a \<longleftrightarrow> (\<exists>u v. p = u @ a @ v)"
proof (induction p)
  case Nil
  then show ?case by auto
next
  case (Cons c cs)
  show ?case
  proof
    assume "includes_str (c # cs) a"
    then consider "prefix a (c # cs)" | "includes_str cs a" by auto
    then show "\<exists>u v. c # cs = u @ a @ v"
    proof cases
      case 1
      then obtain v where "c # cs = a @ v" by (auto simp: prefix_def)
      then have "c # cs = [] @ a @ v" by simp
      then show ?thesis by blast
    next
      case 2
      with Cons.IH obtain u v where "cs = u @ a @ v" by blast
      then have "c # cs = (c # u) @ a @ v" by simp
      then show ?thesis by blast
    qed
  next
    assume "\<exists>u v. c # cs = u @ a @ v"
    then obtain u v where uv: "c # cs = u @ a @ v" by blast
    show "includes_str (c # cs) a"
    proof (cases u)
      case Nil
      with uv have "prefix a (c # cs)" by (simp add: prefix_def)
      then show ?thesis by simp
    next
      case (Cons x u')
      with uv have "cs = u' @ a @ v" by simp
      with Cons.IH have "includes_str cs a" by blast
      then show ?thesis by simp
    qed
  qed
qed

lemma split_arrow_head:
  "\<exists>a rest. split_arrow s = a # rest \<and> \<not> sublist [0x3D, 0x3E] a \<and>
     (s = a \<and> rest = [] \<or> (\<exists>t. s = a @ [0x3D, 0x3E] @ t \<and> rest = split_arrow t))"
proof (induction s rule: split_arrow.induct)
  case 1
  then show ?case by simp
next
  case (2 c)
  then show ?case by (simp add: sublist_Cons_right)
next
  case (3 c d cs)
  show ?case
  proof (cases "c = 0x3D \<and> d = 0x3E")
    case True
    then show ?thesis by simp
  next
    case False
    with 3 obtain w ws where w: "split_arrow (d # cs) = w # ws" "\<not> sublist [0x3D, 0x3E] w"
      "(d # cs = w \<and> ws = [] \<or> (\<exists>t. d # cs = w @ [0x3D, 0x3E] @ t \<and> ws = split_arrow t))"
      by blast
    have "\<not> prefix [0x3D, 0x3E] (c # w)"
    proof
      assume "prefix [0x3D, 0x3E] (c # w)"
      then obtain w' where "c = 0x3D" "w = 0x3E # w'" by (cases w) auto
      with w(3) have "d = 0x3E" by auto
      with \<open>c = 0x3D\<close> False show False by simp
    qed
    with w(2) have "\<not> sublist [0x3D, 0x3E] (c # w)" by (simp add: sublist_Cons_right)
    with w False show ?thesis by auto
  qed
qed

text \<open>
  The antecedent of a rule is the part before its first \<open>=>\<close>, the whole rule when
  it has none.
\<close>

lemma antecedent_spec:
  "\<not> sublist [0x3D, 0x3E] (antecedent rule) \<and>
   (rule = antecedent rule \<or> (\<exists>t. rule = antecedent rule @ [0x3D, 0x3E] @ t))"
  using split_arrow_head [of rule] by (auto simp: antecedent_def)

text \<open>
  C6. When the antecedent of no rule is a substring (a contiguous sublist) of the
  premise, \<open>deductiveReason\<close> returns the premise itself.
\<close>

theorem deductiveReason_identity:
  "\<forall>rule \<in> set inputRules. \<not> sublist (antecedent rule) premise
     \<Longrightarrow> deductiveReason premise inputRules = Some premise"
  by (induction inputRules) (auto simp: includes_str_iff sublist_def)

theorem deductiveReason_identity_witness:
  "\<not> sublist (antecedent (lit ''input=>processed'')) (lit ''0.5'') \<and>
   \<not> sublist (antecedent (lit ''no arrow'')) (lit ''0.5'') \<and>
   deductiveReason (lit ''0.5'') [lit ''input=>processed'', lit ''no arrow'']
     = Some (lit ''0.5'')"
proof -
  have h: "\<forall>rule \<in> set [lit ''input=>processed'', lit ''no arrow''].
             \<not> sublist (antecedent rule) (lit ''0.5'')"
    by (simp add: antecedent_def lit_def includes_str_iff [symmetric] sublist_def)
  from deductiveReason_identity [OF h] h show ?thesis by simp
qed

lemma abductiveReason_value:
  "abductiveReason obs = (if obs = [] then lit ''pattern_match'' else lit ''knowledge_retrieval'')"
  by (simp add: abductiveReason_def hypotheses_def abductiveStep_def scoreHypothesis_def lit_def)

text \<open>
  C7. \<open>abductiveReason\<close> returns one of the three fixed candidates, scored by
  \<open>length observation * length candidate\<close>; no candidate scores more than the one
  returned, every other candidate scores strictly less when the observation is not
  empty, and when no score exceeds the initial best score 0, as for the empty
  observation, the first candidate \<open>pattern_match\<close> is returned.
\<close>

theorem abductiveReason_best:
  "abductiveReason obs \<in> set hypotheses \<and>
   (\<forall>h \<in> set hypotheses. scoreHypothesis obs h = length obs * length h \<and>
        scoreHypothesis obs h \<le> scoreHypothesis obs (abductiveReason obs)) \<and>
   (obs \<noteq> [] \<longrightarrow> (\<forall>h \<in> set hypotheses. h \<noteq> abductiveReason obs \<longrightarrow>
        scoreHypothesis obs h < scoreHypothesis obs (abductiveReason obs))) \<and>
   ((\<forall>h \<in> set hypotheses. \<not> scoreHypothesis obs h > 0) \<longrightarrow>
        abductiveReason obs = hd hypotheses) \<and>
   (obs = [] \<longrightarrow> abductiveReason obs = lit ''pattern_match'')"
  by (simp add: abductiveReason_value hypotheses_def scoreHypothesis_def lit_def)

theorem abductiveReason_best_witness:
  "abductiveReason (lit ''hi'') = lit ''knowledge_retrieval'' \<and>
   scoreHypothesis (lit ''hi'') (lit ''rule_application'')
     < scoreHypothesis (lit ''hi'') (abductiveReason (lit ''hi'')) \<and>
   abductiveReason [] = lit ''pattern_match''"
  using abductiveReason_best [of "lit ''hi''"] abductiveReason_best [of "[]"]
  by (simp add: hypotheses_def lit_def abductiveReason_value scoreHypothesis_def)

section \<open>Properties of the TernaryVPU\<close>

lemma nth_update_any: "xs[k := v] ! i = (if i = k \<and> k < length xs then v else xs ! i)"
  by (cases "k < length xs") (auto simp: list_update_beyond)

lemma quantize_fold:
  "numVPUs (fold (\<lambda>i v. v\<lparr>vpuStates := (vpuStates v)[i := ternary (activationThreshold v) (input ! i)]\<rparr>) [0..<k] vpu) = numVPUs vpu \<and>
   activationThreshold (fold (\<lambda>i v. v\<lparr>vpuStates := (vpuStates v)[i := ternary (activationThreshold v) (input ! i)]\<rparr>) [0..<k] vpu) = activationThreshold vpu \<and>
   length (vpuStates (fold (\<lambda>i v. v\<lparr>vpuStates := (vpuStates v)[i := ternary (activationThreshold v) (input ! i)]\<rparr>) [0..<k] vpu)) = length (vpuStates vpu) \<and>
   (\<forall>i. vpuStates (fold (\<lambda>i v. v\<lparr>vpuStates := (vpuStates v)[i := ternary (activationThreshold v) (input ! i)]\<rparr>) [0..<k] vpu) ! i =
        (if i < k \<and> i < length (vpuStates vpu) then ternary (activationThreshold vpu) (input ! i)
         else vpuStates vpu ! i))"
proof (induction k)
  case 0
  then show ?case by simp
next
  case (Suc k)
  then show ?case
    by (auto simp: nth_update_any less_Suc_eq)
qed

lemma quantizeToTernary_states:
  "numVPUs (quantizeToTernary vpu input) = numVPUs vpu"
  "activationThreshold (quantizeToTernary vpu input) = activationThreshold vpu"
  "length (vpuStates (quantizeToTernary vpu input)) = length (vpuStates vpu)"
  "vpuStates (quantizeToTernary vpu input) ! i =
     (if i < length input \<and> i < numVPUs vpu \<and> i < length (vpuStates vpu)
      then ternary (activationThreshold vpu) (input ! i) else vpuStates vpu ! i)"
  using quantize_fold [of input "min (length input) (numVPUs vpu)" vpu]
  by (auto simp: quantizeToTernary_def)

lemma quantizeToTernary_Nil: "quantizeToTernary vpu [] = vpu"
  by (simp add: quantizeToTernary_def)

lemma fold_sum_upt:
  "fold (\<lambda>i s. s + f i) [0..<n] (a::'a::comm_monoid_add) = a + (\<Sum>i<n. f i)"
  by (induction n) (simp_all add: add.assoc)

text \<open>The output is the arithmetic mean of the unit states.\<close>

lemma computeOutput_mean:
  "length (vpuStates vpu) = numVPUs vpu \<Longrightarrow>
   computeOutput vpu = jsdiv (real_of_int (sum_list (map sint (vpuStates vpu)))) (numVPUs vpu)"
  by (simp add: computeOutput_def fold_sum_upt sum_list_sum_nth atLeast0LessThan)

lemma process_new_empty:
  "0 < n \<Longrightarrow> TernaryVPU_process (TernaryVPU_new n) [] = (Num 0, TernaryVPU_new n)"
proof -
  assume n: "0 < n"
  have "length (vpuStates (TernaryVPU_new n)) = numVPUs (TernaryVPU_new n)"
    by (simp add: TernaryVPU_new_def)
  then have "computeOutput (TernaryVPU_new n)
      = jsdiv (real_of_int (sum_list (map sint (vpuStates (TernaryVPU_new n)))))
              (numVPUs (TernaryVPU_new n))"
    by (rule computeOutput_mean)
  also have "\<dots> = Num 0"
    using n by (simp add: TernaryVPU_new_def jsdiv_def sum_list_replicate)
  finally show ?thesis by (simp add: TernaryVPU_process_def quantizeToTernary_Nil)
qed

text \<open>
  C4. For a unit \<open>i\<close> that the input reaches, \<open>process\<close> leaves the unit in the state
  +1 when the input value is above 0.33, in the state -1 when it is below -0.33, and
  in the state 0 otherwise; the values 0.33 and -0.33 themselves give the state 0.
\<close>

theorem ternary_quantizer:
  "vpu_wf vpu \<Longrightarrow> i < length input \<Longrightarrow> i < numVPUs vpu \<Longrightarrow>
   (let x = input ! i; s = vpuStates (snd (TernaryVPU_process vpu input)) ! i
    in (x > 33 / 100 \<longrightarrow> s = 1 \<and> sint s = 1) \<and>
       (x < - (33 / 100) \<longrightarrow> s = - 1 \<and> sint s = - 1) \<and>
       (\<not> x > 33 / 100 \<and> \<not> x < - (33 / 100) \<longrightarrow> s = 0 \<and> sint s = 0) \<and>
       (x = 33 / 100 \<or> x = - (33 / 100) \<longrightarrow> s = 0))"
  by (auto simp: TernaryVPU_process_def Let_def quantizeToTernary_states vpu_wf_def ternary_def)

theorem ternary_quantizer_witness:
  "vpuStates (snd (TernaryVPU_process (TernaryVPU_new 52)
       [1 / 2, - (1 / 2), 33 / 100, - (33 / 100), 1 / 10])) ! 0 = 1 \<and>
   vpuStates (snd (TernaryVPU_process (TernaryVPU_new 52)
       [1 / 2, - (1 / 2), 33 / 100, - (33 / 100), 1 / 10])) ! 1 = - 1 \<and>
   vpuStates (snd (TernaryVPU_process (TernaryVPU_new 52)
       [1 / 2, - (1 / 2), 33 / 100, - (33 / 100), 1 / 10])) ! 2 = 0 \<and>
   vpuStates (snd (TernaryVPU_process (TernaryVPU_new 52)
       [1 / 2, - (1 / 2), 33 / 100, - (33 / 100), 1 / 10])) ! 3 = 0"
  using ternary_quantizer [of "TernaryVPU_new 52" 0 "[1 / 2, - (1 / 2), 33 / 100, - (33 / 100), 1 / 10]"]
    ternary_quantizer [of "TernaryVPU_new 52" 1 "[1 / 2, - (1 / 2), 33 / 100, - (33 / 100), 1 / 10]"]
    ternary_quantizer [of "TernaryVPU_new 52" 2 "[1 / 2, - (1 / 2), 33 / 100, - (33 / 100), 1 / 10]"]
    ternary_quantizer [of "TernaryVPU_new 52" 3 "[1 / 2, - (1 / 2), 33 / 100, - (33 / 100), 1 / 10]"]
  by (simp add: vpu_wf_def TernaryVPU_new_def Let_def)

text \<open>
  C5. When the input is shorter than the number of units, \<open>process\<close> keeps the number
  of units and leaves every unit at a position from the length of the input on as it
  was. For the empty input it leaves the quantizer as it was and returns the arithmetic
  mean of the states it found, which is 0 for a quantizer that has just been
  constructed.
\<close>

theorem quantizer_frame:
  "vpu_wf vpu \<Longrightarrow> length input < numVPUs vpu \<Longrightarrow>
   length (vpuStates (snd (TernaryVPU_process vpu input))) = length (vpuStates vpu) \<and>
   (\<forall>i. length input \<le> i \<longrightarrow>
      vpuStates (snd (TernaryVPU_process vpu input)) ! i = vpuStates vpu ! i) \<and>
   (input = [] \<longrightarrow>
      snd (TernaryVPU_process vpu input) = vpu \<and>
      fst (TernaryVPU_process vpu input)
        = Num (real_of_int (sum_list (map sint (vpuStates vpu))) / real (numVPUs vpu)) \<and>
      fst (TernaryVPU_process (TernaryVPU_new (numVPUs vpu)) input) = Num 0)"
proof -
  assume wf: "vpu_wf vpu" and short: "length input < numVPUs vpu"
  have frame: "length (vpuStates (snd (TernaryVPU_process vpu input))) = length (vpuStates vpu) \<and>
      (\<forall>i. length input \<le> i \<longrightarrow>
         vpuStates (snd (TernaryVPU_process vpu input)) ! i = vpuStates vpu ! i)"
    by (simp add: TernaryVPU_process_def Let_def quantizeToTernary_states)
  have empty: "snd (TernaryVPU_process vpu []) = vpu \<and>
      fst (TernaryVPU_process vpu [])
        = Num (real_of_int (sum_list (map sint (vpuStates vpu))) / real (numVPUs vpu))"
    using wf short
    by (simp add: TernaryVPU_process_def Let_def quantizeToTernary_Nil vpu_wf_def
          computeOutput_mean jsdiv_def)
  have new: "fst (TernaryVPU_process (TernaryVPU_new (numVPUs vpu)) []) = Num 0"
    using short by (simp add: process_new_empty)
  from frame empty new show ?thesis by blast
qed

theorem quantizer_frame_witness:
  "vpuStates (snd (TernaryVPU_process
       \<lparr>numVPUs = 3, vpuStates = [1, - 1, 1], activationThreshold = 33 / 100\<rparr> [0])) ! 1 = - 1 \<and>
   vpuStates (snd (TernaryVPU_process
       \<lparr>numVPUs = 3, vpuStates = [1, - 1, 1], activationThreshold = 33 / 100\<rparr> [0])) ! 2 = 1 \<and>
   TernaryVPU_process \<lparr>numVPUs = 3, vpuStates = [1, - 1, 1], activationThreshold = 33 / 100\<rparr> []
     = (Num (1 / 3), \<lparr>numVPUs = 3, vpuStates = [1, - 1, 1], activationThreshold = 33 / 100\<rparr>) \<and>
   fst (TernaryVPU_process (TernaryVPU_new 3) []) = Num 0"
  using quantizer_frame [of "\<lparr>numVPUs = 3, vpuStates = [1, - 1, 1], activationThreshold = 33 / 100\<rparr>" "[0]"]
    quantizer_frame [of "\<lparr>numVPUs = 3, vpuStates = [1, - 1, 1], activationThreshold = 33 / 100\<rparr>" "[]"]
  by (simp add: vpu_wf_def prod_eq_iff)

section \<open>Properties of the ResonanceNetwork\<close>

lemma upt_2: "[0..<2] = [0, 1]"
  by (simp add: upt_conv_Cons numeral_2_eq_2)

text \<open>
  C9. With no candidate, \<open>synchronizeVPUs\<close> returns no score and leaves the state
  vector as it was; the only change is the empty score list added to the history.
\<close>

theorem synchronize_empty:
  "fst (synchronizeVPUs net []) = [] \<and>
   resonanceStates (snd (synchronizeVPUs net [])) = resonanceStates net \<and>
   snd (synchronizeVPUs net []) = net\<lparr>syncHistory := syncHistory net @ [[]]\<rparr>"
  by (simp add: synchronizeVPUs_def bestIndexOf_def)

text \<open>
  C8. From a state of \<open>n \<ge> 2\<close> zeros, the candidates \<open>[[1,1],[0,0]]\<close> score 1/2
  and 1, so the second is the best; after the call the first two positions hold its
  values 0 and 0, and every other position is as it was.
\<close>

theorem synchronize_example:
  "2 \<le> n \<Longrightarrow> resonanceStates net = replicate n 0 \<Longrightarrow>
   (let (scores, net') = synchronizeVPUs net [[1, 1], [0, 0]]
    in scores = [Num (1 / 2), Num 1] \<and> (\<exists>a b. scores = [Num a, Num b] \<and> a < b) \<and>
       bestIndexOf scores = Some 1 \<and>
       length (resonanceStates net') = n \<and>
       resonanceStates net' ! 0 = 0 \<and> resonanceStates net' ! 1 = 0 \<and>
       (\<forall>i. 2 \<le> i \<longrightarrow> resonanceStates net' ! i = resonanceStates net ! i))"
proof -
  assume n: "2 \<le> n" and st: "resonanceStates net = replicate n 0"
  have sc: "resonanceScore (replicate n 0) [1, 1] = Num (1 / 2)"
    "resonanceScore (replicate n 0) [0, 0] = Num 1"
    using n by (simp_all add: resonanceScore_def jsdiv_def upt_2)
  have best: "bestIndexOf [Num (1 / 2), Num 1] = Some 1"
    by (simp add: bestIndexOf_def)
  have m: "min 2 n = 2" using n by simp
  have less: "\<exists>a b. [Num (1 / 2), Num 1] = [Num a, Num b] \<and> a < b"
    by (rule exI [of _ "1 / 2"], rule exI [of _ 1]) simp
  show ?thesis
    using n less by (simp add: synchronizeVPUs_def st sc best m upt_2 nth_list_update Let_def)
qed

theorem synchronize_example_witness:
  "fst (synchronizeVPUs (ResonanceNetwork_new 52) [[1, 1], [0, 0]]) = [Num (1 / 2), Num 1] \<and>
   resonanceStates (snd (synchronizeVPUs (ResonanceNetwork_new 52) [[1, 1], [0, 0]])) ! 0 = 0 \<and>
   resonanceStates (snd (synchronizeVPUs (ResonanceNetwork_new 52) [[1, 1], [0, 0]])) ! 1 = 0 \<and>
   resonanceStates (snd (synchronizeVPUs (ResonanceNetwork_new 52) [[1, 1], [0, 0]])) ! 51 = 0"
  using synchronize_example [of 52 "ResonanceNetwork_new 52"]
  by (simp add: ResonanceNetwork_new_def split_beta Let_def)

section \<open>Properties of the NeuralModeController\<close>

lemma processTemporal_fields:
  "outputStr (processTemporal input context) =
     recallMemory (case context of None \<Rightarrow> [] | Some m \<Rightarrow> m) @ [0x20, 0x2192, 0x20] @ input"
  "memoryState (processTemporal input context) =
     Some ((case context of None \<Rightarrow> [] | Some m \<Rightarrow> m)
           @ [outputStr (processTemporal input context)])"
  "anticipation (processTemporal input context) =
     Some (lit ''anticipated: ''
           @ drop (length (outputStr (processTemporal input context)) - 10)
                  (outputStr (processTemporal input context)))"
  by (simp_all add: processTemporal_def emptyResult_def Let_def applyTemporalProcessing_def
        consolidateMemory_def generateAnticipation_def)

text \<open>
  C2, as the code has it. In temporal mode \<open>process\<close> returns as output the memory
  joined by spaces, then the arrow between two spaces, then the input; as memoryState
  the supplied memory (empty when none is supplied) with that \<^emph>\<open>output\<close> appended; and
  as anticipation the label \<open>anticipated: \<close> followed by the last 10 code units of the
  output (all of it when it is shorter). The controller is unchanged.
\<close>

theorem temporal_process:
  "currentMode ctl = TEMPORAL \<Longrightarrow>
   (let memory = (case context of None \<Rightarrow> [] | Some m \<Rightarrow> m);
        (r, ctl') = NeuralModeController_process toString toFixed3 ctl input context
    in outputStr r = join (lit '' '') memory @ lit '' '' @ [0x2192] @ lit '' '' @ input \<and>
       memoryState r = Some (memory @ [outputStr r]) \<and>
       anticipation r
         = Some (lit ''anticipated: '' @ drop (length (outputStr r) - 10) (outputStr r)) \<and>
       ctl' = ctl)"
  by (simp add: NeuralModeController_process_def processTemporal_fields recallMemory_def
        Let_def lit_def)

theorem temporal_process_witness:
  "(let r = fst (NeuralModeController_process exToString exToFixed3
                  (setMode NeuralModeController_new TEMPORAL) (lit ''hello world'')
                  (Some [lit ''a'', lit ''b'']))
    in outputStr r = lit ''a b '' @ [0x2192] @ lit '' hello world'' \<and>
       memoryState r
         = Some [lit ''a'', lit ''b'', lit ''a b '' @ [0x2192] @ lit '' hello world''] \<and>
       anticipation r = Some (lit ''anticipated: ello world''))"
  using temporal_process [of "setMode NeuralModeController_new TEMPORAL"
      "Some [lit ''a'', lit ''b'']" exToString exToFixed3 "lit ''hello world''"]
  by (simp add: setMode_def Let_def split_beta lit_def)

text \<open>
  The claim as it is written fails: with the input \<open>x\<close> and no memory, the returned
  memoryState holds the output, the arrow between two spaces followed by \<open>x\<close>, and
  not the input \<open>x\<close>.
\<close>

theorem temporal_memory_counterexample:
  "memoryState (fst (NeuralModeController_process exToString exToFixed3
       (setMode NeuralModeController_new TEMPORAL) (lit ''x'') None))
     = Some [[0x20, 0x2192, 0x20, 0x78]] \<and>
   memoryState (fst (NeuralModeController_process exToString exToFixed3
       (setMode NeuralModeController_new TEMPORAL) (lit ''x'') None))
     \<noteq> Some ([] @ [lit ''x''])"
  by (simp add: NeuralModeController_process_def setMode_def NeuralModeController_new_def
        processTemporal_fields recallMemory_def lit_def)

lemma processHybrid_level:
  "consciousnessLevel (snd (processHybrid ts tf ctl input context))
     = min 1 (consciousnessLevel ctl + 1 / 100)"
  "resultLevel (fst (processHybrid ts tf ctl input context))
     = Some (min 1 (consciousnessLevel ctl + 1 / 100))"
  "currentMode (snd (processHybrid ts tf ctl input context)) = currentMode ctl"
  by (simp_all add: processHybrid_def processConscious_def updateConsciousnessLevel_def
        Let_def emptyResult_def)

lemma processHybrid_fields:
  "qualiaState (fst (processHybrid ts tf ctl input context)) = Some (applyQualiaEncoding input)"
  "fullSynthesis (fst (processHybrid ts tf ctl input context)) = Some True"
  "memoryState (fst (processHybrid ts tf ctl input context)) =
     memoryState (processTemporal (applyMetaCognitiveAttention ts (applyQualiaEncoding input))
                    context)"
  by (simp_all add: processHybrid_def processConscious_def updateConsciousnessLevel_def
        Let_def emptyResult_def)

text \<open>
  C3, as the code has it. After \<open>setMode(hybrid)\<close>, \<open>process("x")\<close> returns a
  qualiaState whose content is the one number 120/255, a memoryState that is not empty,
  fullSynthesis true, and the consciousness level \<open>min 1 (before + 0.01)\<close>: strictly
  greater than the level before the call when that was below 1, and equal to the cap 1
  when the level before had reached it.
\<close>

theorem hybrid_process:
  "(let before = consciousnessLevel ctl;
        r = fst (NeuralModeController_process toString toFixed3 (setMode ctl HYBRID)
                   (lit ''x'') context)
    in (\<exists>q. qualiaState r = Some q \<and> content q = [120 / 255]) \<and>
       (\<exists>m. memoryState r = Some m \<and> m \<noteq> []) \<and>
       fullSynthesis r = Some True \<and>
       resultLevel r = Some (min 1 (before + 1 / 100)) \<and>
       (before < 1 \<longrightarrow> (\<exists>l. resultLevel r = Some l \<and> before < l)) \<and>
       (1 \<le> before \<longrightarrow> resultLevel r = Some 1))"
  by (simp add: NeuralModeController_process_def setMode_def processHybrid_level
        processHybrid_fields processTemporal_fields applyQualiaEncoding_def lit_def Let_def)

theorem hybrid_process_witness:
  "(let r = fst (NeuralModeController_process exToString exToFixed3
                   (setMode NeuralModeController_new HYBRID) (lit ''x'') None)
    in qualiaState r = Some \<lparr>content = [120 / 255], qualia = (0, 0)\<rparr> \<and>
       memoryState r
         = Some [[0x20, 0x2192, 0x20] @ lit ''0.47058823529411764 (introspection: 0.5)''] \<and>
       fullSynthesis r = Some True \<and>
       resultLevel r = Some (1 / 100) \<and>
       introspection r
         = Some (lit ''I am processing in hybrid mode with consciousness level 0.010''))"
  using hybrid_process [of NeuralModeController_new exToString exToFixed3 None]
  by (simp add: NeuralModeController_process_def setMode_def NeuralModeController_new_def
        processHybrid_def processConscious_def updateConsciousnessLevel_def Let_def
        emptyResult_def processTemporal_def applyTemporalProcessing_def consolidateMemory_def
        recallMemory_def applyQualiaEncoding_def applyMetaCognitiveAttention_def
        generateIntrospection_def exToString_def exToFixed3_def lit_def)

text \<open>
  The claim as it is written fails at the cap: from a controller whose level is 1, the
  level that the hybrid call returns is 1 again, not a greater one.
\<close>

theorem hybrid_level_counterexample:
  "resultLevel (fst (NeuralModeController_process exToString exToFixed3
       (setMode \<lparr>currentMode = CONSCIOUS, consciousnessLevel = 1\<rparr> HYBRID) (lit ''x'') None))
     = Some 1 \<and>
   \<not> (1 > consciousnessLevel \<lparr>currentMode = CONSCIOUS, consciousnessLevel = 1\<rparr>)"
  by (simp add: NeuralModeController_process_def setMode_def processHybrid_level)

text \<open>
  A controller reaches the level 1: after \<open>n\<close> hybrid calls on a new controller the
  level is \<open>min 1 (n / 100)\<close>, so it is 1 from the 100th call on.
\<close>

lemma hybrid_level_iterate:
  "consciousnessLevel (((\<lambda>c. snd (NeuralModeController_process ts tf c (lit ''x'') None)) ^^ n)
       (setMode NeuralModeController_new HYBRID)) = min 1 (real n / 100) \<and>
   currentMode (((\<lambda>c. snd (NeuralModeController_process ts tf c (lit ''x'') None)) ^^ n)
       (setMode NeuralModeController_new HYBRID)) = HYBRID"
proof (induction n)
  case 0
  then show ?case by (simp add: setMode_def NeuralModeController_new_def)
next
  case (Suc n)
  then show ?case
    by (simp add: NeuralModeController_process_def processHybrid_level min_def field_simps)
qed

section \<open>Properties of the SparseTensorRing\<close>

lemma jsmul_one: "jsmul v 1 = v"
  by (cases v) simp_all

lemma extract_fold_ring:
  "ringDimension (snd (fold (\<lambda>i (sparse, r).
             if \<bar>decomposed ! i\<bar> > 1 / 100
             then (sparse @ [real i, decomposed ! i], r\<lparr>sparsityMask := (sparsityMask r)[i := 1]\<rparr>)
             else (sparse, r)) is (sp, ring))) = ringDimension ring"
  by (induction "is" arbitrary: sp ring) auto

lemma extractSparse_ringDimension:
  "ringDimension (snd (extractSparse ring decomposed)) = ringDimension ring"
  unfolding extractSparse_def by (rule extract_fold_ring)

lemma compress_ringDimension: "ringDimension (snd (compress ring t)) = ringDimension ring"
  by (simp add: compress_def Let_def extractSparse_ringDimension)

text \<open>
  Position 0 of the reconstruction: every cosine is \<open>cos 0\<close> there, so it holds the
  sum of the values of the pairs.
\<close>

lemma reconstruct_fold_head:
  "0 < n \<Longrightarrow> length init = n \<Longrightarrow>
   length (fold (\<lambda>(index, value) reconstructed.
             map (\<lambda>j. jsadd (reconstructed ! j) (jsmul value (cos (index * real j * pi / real n))))
                 [0..<n]) ps init) = n \<and>
   fold (\<lambda>(index, value) reconstructed.
             map (\<lambda>j. jsadd (reconstructed ! j) (jsmul value (cos (index * real j * pi / real n))))
                 [0..<n]) ps init ! 0
     = fold (\<lambda>(index, value) r. jsadd r value) ps (init ! 0)"
proof (induction ps arbitrary: init)
  case Nil
  then show ?case by simp
next
  case (Cons p ps)
  obtain index "value" where p: "p = (index, value)" by (cases p)
  let ?step = "map (\<lambda>j. jsadd (init ! j) (jsmul value (cos (index * real j * pi / real n)))) [0..<n]"
  have len: "length ?step = n" by simp
  have hd0: "?step ! 0 = jsadd (init ! 0) value"
    using Cons.prems(1) by (simp add: jsmul_one)
  from Cons.IH [OF Cons.prems(1) len] hd0 show ?case
    by (simp add: p)
qed

lemma reconstructTensor_head:
  "0 < ringDimension ring \<Longrightarrow>
   length (reconstructTensor ring sparse) = ringDimension ring \<and>
   reconstructTensor ring sparse ! 0
     = fold (\<lambda>(index, value) r. jsadd r value) (sparsePairs sparse) (Num 0)"
  using reconstruct_fold_head [of "ringDimension ring" "replicate (ringDimension ring) (Num 0)"
      "sparsePairs sparse"]
  by (simp add: reconstructTensor_def)

lemma decodeFromTensor_filter:
  "decodeFromTensor tensor
     = map fromCharCode (filter (\<lambda>code. 0 < code \<and> code < 256)
         (List.map_filter (\<lambda>x. mathRound (jsmul x 255)) tensor))"
  by (induction tensor) (auto simp: List.map_filter_simps split: option.splits)

lemma fromCharCode_unat: "0 < code \<Longrightarrow> code < 256 \<Longrightarrow> unat (fromCharCode code) = nat code"
  by (simp add: fromCharCode_def unat_eq_nat_uint uint_word_of_int take_bit_int_eq_self)

subsection \<open>The text of the one character U+00FF\<close>

lemma upt_4: "[0..<4] = [0, 1, 2, 3]"
  by (simp add: upt_conv_Cons)

lemma encode_FF:
  "encodeToTensor (SparseTensorRing_new 32 4) [0xFF] = (replicate 32 0)[0 := 1]"
  by (simp add: encodeToTensor_def SparseTensorRing_new_def)

lemma single_peak_sum:
  assumes "0 < n"
  shows "fold (\<lambda>j sum. sum + ((replicate n 0)[0 := x]) ! j * c j) [0..<n] (0::real) = x * c 0"
proof -
  have "(\<Sum>j<n. ((replicate n 0)[0 := x]) ! j * c j) = (\<Sum>j<n. if j = 0 then x * c 0 else 0)"
    by (rule sum.cong) (auto simp: nth_list_update)
  also have "\<dots> = x * c 0" using assms by simp
  finally show ?thesis by (simp add: fold_sum_upt)
qed

lemma decomposition_FF:
  "tensorDecomposition (SparseTensorRing_new 32 4) ((replicate 32 0)[0 := 1])
     = [1 / 32, 1 / 32, 1 / 32, 1 / 32]"
proof -
  have "\<And>i. fold (\<lambda>j sum. sum + ((replicate 32 0)[0 := 1]) ! j * cos (real i * real j * pi / 32))
                [0..<32] (0::real) = 1"
    using single_peak_sum [of 32 1 "\<lambda>j. cos (real _ * real j * pi / 32)"] by simp
  then show ?thesis
    by (simp add: tensorDecomposition_def SparseTensorRing_new_def upt_4)
qed

lemma extract_FF:
  "extractSparse (SparseTensorRing_new 32 4) [1 / 32, 1 / 32, 1 / 32, 1 / 32]
     = ([0, 1 / 32, 1, 1 / 32, 2, 1 / 32, 3, 1 / 32],
        (SparseTensorRing_new 32 4)
          \<lparr>sparsityMask := (replicate 32 0)[0 := 1, 1 := 1, 2 := 1, 3 := 1]\<rparr>)"
  by (simp add: extractSparse_def upt_4 SparseTensorRing_new_def numeral_2_eq_2 numeral_3_eq_3)

text \<open>
  All four coefficients of this text are 1/32, above the threshold 0.01: the
  compressed form keeps every one of them.
\<close>

lemma compress_FF:
  "compress (SparseTensorRing_new 32 4) [0xFF]
     = ([0, 1 / 32, 1, 1 / 32, 2, 1 / 32, 3, 1 / 32],
        (SparseTensorRing_new 32 4)
          \<lparr>sparsityMask := (replicate 32 0)[0 := 1, 1 := 1, 2 := 1, 3 := 1]\<rparr>)"
  by (simp add: compress_def encode_FF decomposition_FF extract_FF)

text \<open>
  Position 0 of the reconstruction is 4/32; times 255 that is 31.875, which rounds to
  32: the decompressed text starts with a space.
\<close>

lemma decompress_FF_head:
  "\<exists>rest. decompress (snd (compress (SparseTensorRing_new 32 4) [0xFF]))
             (fst (compress (SparseTensorRing_new 32 4) [0xFF])) = 0x20 # rest"
proof -
  let ?ring = "snd (compress (SparseTensorRing_new 32 4) [0xFF])"
  let ?sparse = "[0, 1 / 32, 1, 1 / 32, 2, 1 / 32, 3, 1 / 32] :: real list"
  have dim: "0 < ringDimension ?ring"
    by (simp add: compress_ringDimension SparseTensorRing_new_def)
  from reconstructTensor_head [OF dim, of ?sparse]
  have len: "length (reconstructTensor ?ring ?sparse) = ringDimension ?ring"
    and h: "reconstructTensor ?ring ?sparse ! 0 = Num (1 / 8)"
    by simp_all
  from len dim obtain x xs where xs: "reconstructTensor ?ring ?sparse = x # xs"
    by (cases "reconstructTensor ?ring ?sparse") auto
  with h have "x = Num (1 / 8)" by simp
  with xs have "decodeFromTensor (reconstructTensor ?ring ?sparse) = 0x20 # decodeFromTensor xs"
    by (simp add: fromCharCode_def)
  then show ?thesis by (simp add: decompress_def compress_FF)
qed

text \<open>
  C1, as the code has it. Every character of \<open>decompress(compress(t))\<close> has a code
  from 1 to 255: \<open>decompress\<close> emits, in the order of the positions, the codes
  \<open>Math.round(value * 255)\<close> of the reconstructed values that lie strictly between 0
  and 256, and a position whose code is 0 or less, 256 or more, or \<open>NaN\<close>
  contributes no character. That the codes are those of \<open>t\<close> is not part of it.
\<close>

theorem decompress_codes:
  "(\<forall>c \<in> set (decompress (snd (compress ring t)) (fst (compress ring t))).
       1 \<le> unat c \<and> unat c \<le> 255) \<and>
   decompress ring sparse
     = map fromCharCode (filter (\<lambda>code. 0 < code \<and> code < 256)
         (List.map_filter (\<lambda>x. mathRound (jsmul x 255)) (reconstructTensor ring sparse)))"
  by (auto simp: decompress_def decodeFromTensor_filter fromCharCode_unat)

theorem decompress_codes_witness:
  "0x20 \<in> set (decompress (snd (compress (SparseTensorRing_new 32 4) [0xFF]))
                   (fst (compress (SparseTensorRing_new 32 4) [0xFF]))) \<and>
   1 \<le> unat (0x20 :: 16 word) \<and> unat (0x20 :: 16 word) \<le> 255"
  using decompress_codes [of "SparseTensorRing_new 32 4" "[0xFF]"] decompress_FF_head
  by auto

text \<open>
  The claim as it is written fails: for the text of the one character U+00FF (code 255)
  the threshold removes no coefficient, the compressed form has all \<open>2 * rankBound\<close>
  entries, and yet the decompressed text starts with the code 32, not 255. Every
  number on the way to that code (1, 1/32, 4/32 and 31.875) is a binary fraction, so
  IEEE arithmetic computes the same 32.
\<close>

theorem roundtrip_counterexample:
  "length (fst (compress (SparseTensorRing_new 32 4) [0xFF]))
     = 2 * rankBound (SparseTensorRing_new 32 4) \<and>
   decompress (snd (compress (SparseTensorRing_new 32 4) [0xFF]))
     (fst (compress (SparseTensorRing_new 32 4) [0xFF])) \<noteq> [] \<and>
   hd (decompress (snd (compress (SparseTensorRing_new 32 4) [0xFF]))
        (fst (compress (SparseTensorRing_new 32 4) [0xFF]))) = 0x20 \<and>
   decompress (snd (compress (SparseTensorRing_new 32 4) [0xFF]))
     (fst (compress (SparseTensorRing_new 32 4) [0xFF])) \<noteq> [0xFF]"
proof -
  have "length (fst (compress (SparseTensorRing_new 32 4) [0xFF]))
     = 2 * rankBound (SparseTensorRing_new 32 4)"
    by (simp add: compress_FF) (simp add: SparseTensorRing_new_def)
  with decompress_FF_head show ?thesis by auto
qed

section \<open>Properties of the HybridCore\<close>

lemma sum_sint_bound:
  "list_all (\<lambda>s. s = 0 \<or> s = 1 \<or> s = - 1) (xs :: 8 word list) \<Longrightarrow>
   \<bar>sum_list (map sint xs)\<bar> \<le> int (length xs)"
  by (induction xs) auto

lemma ternary_cases: "ternary thr x = 0 \<or> ternary thr x = 1 \<or> ternary thr x = - 1"
  by (simp add: ternary_def)

lemma quantizeToTernary_ternary:
  "list_all (\<lambda>s. s = 0 \<or> s = 1 \<or> s = - 1) (vpuStates vpu) \<Longrightarrow>
   list_all (\<lambda>s. s = 0 \<or> s = 1 \<or> s = - 1) (vpuStates (quantizeToTernary vpu input))"
  unfolding list_all_length
  using ternary_cases by (auto simp: quantizeToTernary_states)

text \<open>With units in the states 0, 1 and -1 only, the mean lies between -1 and 1.\<close>

lemma process_mean_bound:
  assumes "vpu_wf vpu" "numVPUs vpu \<noteq> 0"
    "list_all (\<lambda>s. s = 0 \<or> s = 1 \<or> s = - 1) (vpuStates vpu)"
  shows "\<exists>v. fst (TernaryVPU_process vpu input) = Num v \<and> - 1 \<le> v \<and> v \<le> 1"
proof -
  let ?v' = "quantizeToTernary vpu input"
  have len: "length (vpuStates ?v') = numVPUs ?v'"
    using assms(1) by (simp add: vpu_wf_def quantizeToTernary_states)
  have n: "numVPUs ?v' = numVPUs vpu" by (simp add: quantizeToTernary_states)
  from quantizeToTernary_ternary [OF assms(3)]
  have "\<bar>sum_list (map sint (vpuStates ?v'))\<bar> \<le> int (length (vpuStates ?v'))"
    by (rule sum_sint_bound)
  then have b: "\<bar>real_of_int (sum_list (map sint (vpuStates ?v')))\<bar> \<le> real (numVPUs vpu)"
    using len n by linarith
  have "fst (TernaryVPU_process vpu input)
      = Num (real_of_int (sum_list (map sint (vpuStates ?v'))) / real (numVPUs vpu))"
    using assms(2)
    by (simp add: TernaryVPU_process_def Let_def computeOutput_mean [OF len] n jsdiv_def)
  moreover have "- 1 \<le> real_of_int (sum_list (map sint (vpuStates ?v'))) / real (numVPUs vpu)"
    using b assms(2) by (simp add: field_simps)
  moreover have "real_of_int (sum_list (map sint (vpuStates ?v'))) / real (numVPUs vpu) \<le> 1"
    using b assms(2) by (simp add: field_simps)
  ultimately show ?thesis by blast
qed

text \<open>A string without the letter \<open>p\<close> neither includes \<open>input\<close> nor is \<open>processed\<close>.\<close>

lemma no_input_in_number:
  assumes "set s \<subseteq> set (lit ''0123456789.-+eNaInfity'')"
  shows "\<not> includes_str s (lit ''input'')" "s \<noteq> lit ''processed''"
proof -
  have p: "(0x70 :: 16 word) \<notin> set s"
    using assms by (auto simp: lit_def)
  show "\<not> includes_str s (lit ''input'')"
  proof
    assume "includes_str s (lit ''input'')"
    then obtain u v where "s = u @ lit ''input'' @ v" by (auto simp: includes_str_iff)
    then have "0x70 \<in> set s" by (simp add: lit_def)
    with p show False by simp
  qed
  show "s \<noteq> lit ''processed''"
    using p by (auto simp: lit_def)
qed

lemma rule_antecedent: "antecedent (lit ''input=>processed'') = lit ''input''"
  by (simp add: antecedent_def lit_def)

lemma HybridCore_process_fst:
  "fst (HybridCore_process toString core input t) =
     deductiveReason
       (toString (fst (TernaryVPU_process (ternaryVPU core)
                         (fst (compress (tensorRing core) input)))))
       [lit ''input=>processed'']"
  by (simp add: HybridCore_process_def Let_def split_beta)

lemma HybridCore_process_vpu:
  "ternaryVPU (snd (HybridCore_process toString core input t)) =
     snd (TernaryVPU_process (ternaryVPU core) (fst (compress (tensorRing core) input)))"
  by (simp add: HybridCore_process_def Let_def split_beta)

text \<open>The invariant holds for a new orchestrator and every call keeps it.\<close>

lemma core_inv_new: "core_inv HybridCore_new"
  by (simp add: core_inv_def HybridCore_new_def vpu_wf_def TernaryVPU_new_def list_all_length)

lemma core_inv_process:
  "core_inv core \<Longrightarrow> core_inv (snd (HybridCore_process toString core input t))"
  by (simp add: core_inv_def HybridCore_process_vpu TernaryVPU_process_def Let_def vpu_wf_def
      quantizeToTernary_states quantizeToTernary_ternary)

text \<open>
  C10. Let \<open>toString\<close> print every number with the characters of JavaScript's number
  strings only: digits, point, signs, \<open>e\<close>, and the letters of \<open>NaN\<close> and
  \<open>Infinity\<close>. Then for every input the orchestrator returns the string of the
  quantizer's output, a number between -1 and 1: the rule \<open>input=>processed\<close> does
  not fire, the result is not \<open>processed\<close>, and it is the same whatever the state of
  the synchronizer is.
\<close>

theorem orchestrator_output:
  assumes "\<forall>x. set (toString x) \<subseteq> set (lit ''0123456789.-+eNaInfity'')"
    and "core_inv core"
  shows "(let vpuOutput = fst (TernaryVPU_process (ternaryVPU core)
                                 (fst (compress (tensorRing core) input)))
          in fst (HybridCore_process toString core input t) = Some (toString vpuOutput) \<and>
             (\<exists>v. vpuOutput = Num v \<and> - 1 \<le> v \<and> v \<le> 1) \<and>
             fst (HybridCore_process toString core input t) \<noteq> Some (lit ''processed'') \<and>
             fst (HybridCore_process toString (core\<lparr>resonance := net\<rparr>) input t)
               = fst (HybridCore_process toString core input t))"
proof -
  let ?out = "fst (TernaryVPU_process (ternaryVPU core) (fst (compress (tensorRing core) input)))"
  from assms(1) have a: "set (toString ?out) \<subseteq> set (lit ''0123456789.-+eNaInfity'')"
    by blast
  have r: "fst (HybridCore_process toString core input t) = Some (toString ?out)"
    using no_input_in_number(1) [OF a] by (simp add: HybridCore_process_fst rule_antecedent)
  have b: "\<exists>v. ?out = Num v \<and> - 1 \<le> v \<and> v \<le> 1"
    using assms(2) by (intro process_mean_bound) (simp_all add: core_inv_def)
  have c: "fst (HybridCore_process toString core input t) \<noteq> Some (lit ''processed'')"
    using no_input_in_number(2) [OF a] r by simp
  have d: "fst (HybridCore_process toString (core\<lparr>resonance := net\<rparr>) input t)
               = fst (HybridCore_process toString core input t)"
    by (simp add: HybridCore_process_fst)
  from r b c d show ?thesis by (simp add: Let_def)
qed

lemma exToString_alphabet:
  "\<forall>x. set (exToString x) \<subseteq> set (lit ''0123456789.-+eNaInfity'')"
  by (simp add: exToString_def lit_def)

text \<open>
  The compressed form of the text U+00FF is the list 0, 1/32, 1, 1/32, 2, 1/32, 3, 1/32
  of indices and values alike; the quantizer turns the entries 1, 2 and 3 into the
  state 1 and the mean of the 52 units is 3/52.
\<close>

lemma process_FF:
  "fst (TernaryVPU_process (TernaryVPU_new 52) [0, 1 / 32, 1, 1 / 32, 2, 1 / 32, 3, 1 / 32])
     = Num (3 / 52)"
  by code_simp

theorem orchestrator_output_witness:
  "fst (HybridCore_process exToString HybridCore_new [0xFF] 0)
     = Some (lit ''0.057692307692307696'') \<and>
   fst (TernaryVPU_process (ternaryVPU HybridCore_new)
          (fst (compress (tensorRing HybridCore_new) [0xFF])))
     = Num (3 / 52)"
proof -
  have v: "fst (TernaryVPU_process (ternaryVPU HybridCore_new)
                  (fst (compress (tensorRing HybridCore_new) [0xFF])))
     = Num (3 / 52)"
    by (simp add: HybridCore_new_def compress_FF process_FF)
  from orchestrator_output [OF exToString_alphabet core_inv_new, of "[0xFF]" 0
      "ResonanceNetwork_new 52"]
  have "fst (HybridCore_process exToString HybridCore_new [0xFF] 0)
      = Some (exToString (Num (3 / 52)))"
    by (simp add: Let_def v)
  with v show ?thesis by (simp add: exToString_def)
qed

end
